theory Spec2Isabelle
  imports Main "HOL-Library.AList"
begin

section \<open>JavaScript values\<close>

text \<open>
  The hook and the component exchange plain JavaScript values: the options object, the
  payloads of the widget and the functions of the host. A function is opaque and known by
  its identity only.
\<close>

datatype fn = HostFn nat

text \<open>
  Numbers are the integers that a JavaScript number holds exactly (amounts are in the
  smallest currency unit). An object is an association list in insertion order; the first
  binding of a key is the one that is read. A string is its sequence of bytes in UTF-8.
\<close>

datatype jsval =
    JUndefined
  | JNull
  | JBool bool
  | JNum int
  | JStr string
  | JFun fn
  | JArr "jsval list"
  | JObj "(string \<times> jsval) list"

text \<open>
  The exceptions: of \<open>JSON.parse\<close>, of a property read on \<open>undefined\<close> or \<open>null\<close>,
  and whatever a function of the host throws.
\<close>

datatype error = SyntaxError | TypeError | HostError

text \<open>
  Reading a property \<open>v.k\<close>. It throws on \<open>undefined\<close> and \<open>null\<close> and gives
  \<open>undefined\<close> for a key that an object does not have. The code reads the keys
  \<open>type\<close>, \<open>data\<close> and \<open>error\<close> only, which no primitive, array or function has.
\<close>

fun get_prop :: "jsval \<Rightarrow> string \<Rightarrow> error + jsval" where
  "get_prop JUndefined k = Inl TypeError"
| "get_prop JNull k = Inl TypeError"
| "get_prop (JObj kvs) k = Inr (case map_of kvs k of None \<Rightarrow> JUndefined | Some v \<Rightarrow> v)"
| "get_prop v k = Inr JUndefined"

subsection \<open>JSON\<close>

text \<open>
  A text is represented by the JSON document it holds, when it holds one. \<open>jsonify\<close>
  is the document that \<open>JSON.stringify\<close> writes: a member whose value is
  \<open>undefined\<close> or a function is left out of an object and becomes \<open>null\<close> in an
  array; at top level such a value gives \<open>undefined\<close> instead of a text.
\<close>

datatype text_data = JSON_text jsval | Other_text string

primrec jsonify :: "jsval \<Rightarrow> jsval option" where
  "jsonify JUndefined = None"
| "jsonify JNull = Some JNull"
| "jsonify (JBool b) = Some (JBool b)"
| "jsonify (JNum n) = Some (JNum n)"
| "jsonify (JStr s) = Some (JStr s)"
| "jsonify (JFun f) = None"
| "jsonify (JArr xs) =
     Some (JArr (map (\<lambda>d. case d of None \<Rightarrow> JNull | Some v \<Rightarrow> v) (map jsonify xs)))"
| "jsonify (JObj kvs) =
     Some (JObj (List.map_filter (\<lambda>(k, d). map_option (Pair k) d)
                  (map (map_prod id jsonify) kvs)))"

definition JSON_stringify :: "jsval \<Rightarrow> text_data option" where
  "JSON_stringify v = map_option JSON_text (jsonify v)"

fun JSON_parse :: "text_data \<Rightarrow> error + jsval" where
  "JSON_parse (JSON_text d) = Inr d"
| "JSON_parse (Other_text s) = Inl SyntaxError"

text \<open>
  The characters of a JSON document as \<open>JSON.stringify\<close> writes them, without white
  space. In a string only the quotation mark, the backslash and the control characters
  below \<open>0x20\<close> are escaped; \<open><\<close>, \<open>/\<close> and \<open>>\<close> are written as they are.
\<close>

fun digits :: "nat \<Rightarrow> string" where
  "digits n =
     (if n < 10 then [''0123456789'' ! n]
      else digits (n div 10) @ [''0123456789'' ! (n mod 10)])"

definition number_chars :: "int \<Rightarrow> string" where
  "number_chars i = (if i < 0 then ''-'' @ digits (nat (- i)) else digits (nat i))"

definition escape_char :: "char \<Rightarrow> string" where
  "escape_char c =
     (if c = CHR 0x22 then [CHR 0x5C, CHR 0x22]
      else if c = CHR 0x5C then [CHR 0x5C, CHR 0x5C]
      else if c = CHR 0x08 then [CHR 0x5C, CHR ''b'']
      else if c = CHR 0x09 then [CHR 0x5C, CHR ''t'']
      else if c = CHR 0x0A then [CHR 0x5C, CHR ''n'']
      else if c = CHR 0x0C then [CHR 0x5C, CHR ''f'']
      else if c = CHR 0x0D then [CHR 0x5C, CHR ''r'']
      else if (of_char c :: nat) < 32 then
        [CHR 0x5C, CHR ''u'', CHR ''0'', CHR ''0'',
         ''0123456789abcdef'' ! ((of_char c :: nat) div 16),
         ''0123456789abcdef'' ! ((of_char c :: nat) mod 16)]
      else [c])"

definition quote :: "string \<Rightarrow> string" where
  "quote s = [CHR 0x22] @ concat (map escape_char s) @ [CHR 0x22]"

fun join :: "string \<Rightarrow> string list \<Rightarrow> string" where
  "join sep [] = []"
| "join sep [x] = x"
| "join sep (x # y # ys) = x @ sep @ join sep (y # ys)"

primrec characters :: "jsval \<Rightarrow> string" where
  "characters JUndefined = []"
| "characters JNull = ''null''"
| "characters (JBool b) = (if b then ''true'' else ''false'')"
| "characters (JNum n) = number_chars n"
| "characters (JStr s) = quote s"
| "characters (JFun f) = []"
| "characters (JArr xs) = ''['' @ join '','' (map characters xs) @ '']''"
| "characters (JObj kvs) =
     ''{'' @ join '','' (map (\<lambda>(k, cs). quote k @ '':'' @ cs) (map (map_prod id characters) kvs))
     @ ''}''"

text \<open>
  The characters that a template literal puts in the place of \<open>${x}\<close> for the result of
  \<open>JSON.stringify\<close>.
\<close>

fun interpolate :: "text_data option \<Rightarrow> string" where
  "interpolate None = ''undefined''"
| "interpolate (Some (JSON_text d)) = characters d"
| "interpolate (Some (Other_text s)) = s"

definition startsWith :: "string \<Rightarrow> string \<Rightarrow> bool" where
  "startsWith s p \<longleftrightarrow> take (length p) s = p"

section \<open>The hook \<open>useRazorpay\<close>\<close>

type_synonym RazorpayOptions = "(string \<times> jsval) list"

record CheckoutCallbacks =
  onSuccess :: fn
  onFailure :: fn
  onClose :: "fn option"

text \<open>
  The three \<open>useState\<close> cells of the hook. A value of this record is also what one
  render of the hook has read from the cells: the functions that a render creates are
  closures over these values and keep reading them however the cells change afterwards.
\<close>

record hook_state =
  isVisible :: bool
  checkoutOptions :: "RazorpayOptions option"
  callbacks :: "CheckoutCallbacks option"

text \<open>
  A handler reads the values of the render it was created in and performs effects in the
  order of its statements: state setters, calls of host functions, timers, the link opener
  and the console. A setter writes the cell; no render reads it before the handler has
  ended. An \<open>Invoke\<close> records which member of the callbacks was called, the function
  and its arguments. The functions of the host are not followed into: a call back into the
  hook from inside one of them is an event of its own, made through the function of the
  render that the host took it from.
\<close>

datatype role = OnSuccess | OnFailure | OnClose

datatype setter =
    SetIsVisible bool
  | SetCheckoutOptions "RazorpayOptions option"
  | SetCallbacks "CheckoutCallbacks option"

text \<open>
  Both \<open>setTimeout\<close> calls of the hook pass the same function, which captures nothing:
  \<open>() => { setCallbacks(null); setCheckoutOptions(null); }\<close>.
\<close>

datatype timer_callback = ClearRequest

fun timer_body :: "timer_callback \<Rightarrow> setter list" where
  "timer_body ClearRequest = [SetCallbacks None, SetCheckoutOptions None]"

datatype effect =
    Set setter
  | Invoke role fn "jsval list"
  | SetTimeout timer_callback nat
  | LinkingOpenURL string
  | ConsoleError string

text \<open>
  What a handler did before it returned or threw, and its return value or exception. A
  statement after one that throws is not reached.
\<close>

type_synonym 'a outcome = "effect list \<times> (error + 'a)"

definition performs :: "effect list \<Rightarrow> unit outcome" where
  "performs effs = (effs, Inr ())"

definition andThen :: "unit outcome \<Rightarrow> 'a outcome \<Rightarrow> 'a outcome" where
  "andThen a b =
     (case snd a of Inl e \<Rightarrow> (fst a, Inl e) | Inr u \<Rightarrow> (fst a @ fst b, snd b))"

text \<open>
  A call of a function of the host. Whether the function throws on these arguments is a
  parameter; nothing in the hook or in the component catches what it throws.
\<close>

definition call_host ::
  "(fn \<Rightarrow> jsval list \<Rightarrow> bool) \<Rightarrow> role \<Rightarrow> fn \<Rightarrow> jsval list \<Rightarrow> unit outcome" where
  "call_host throws r f args =
     ([Invoke r f args], if throws f args then Inl HostError else Inr ())"

definition cleanup :: "unit outcome" where
  "cleanup = performs [Set (SetIsVisible False), SetTimeout ClearRequest 100]"

definition openCheckout ::
  "'a hook_state_scheme \<Rightarrow> RazorpayOptions \<Rightarrow> CheckoutCallbacks \<Rightarrow> unit outcome" where
  "openCheckout r options cbs =
     (if isVisible r then performs []
      else performs [Set (SetCheckoutOptions (Some options)), Set (SetCallbacks (Some cbs)),
                     Set (SetIsVisible True)])"

definition closeCheckout ::
  "(fn \<Rightarrow> jsval list \<Rightarrow> bool) \<Rightarrow> 'a hook_state_scheme \<Rightarrow> unit outcome" where
  "closeCheckout throws r =
     andThen (performs [Set (SetIsVisible False)])
       (andThen
          (case callbacks r of
             None \<Rightarrow> performs []
           | Some cbs \<Rightarrow>
               (case onClose cbs of
                  None \<Rightarrow> performs []
                | Some f \<Rightarrow> call_host throws OnClose f []))
          (performs [SetTimeout ClearRequest 100]))"

text \<open>The props that \<open>RazorpayUI\<close> passes to the component, closed over the callbacks.\<close>

record RazorpayCheckoutProps =
  p_options :: RazorpayOptions
  p_onSuccess :: "jsval \<Rightarrow> unit outcome"
  p_onFailure :: "jsval \<Rightarrow> unit outcome"
  p_onClose :: "unit outcome"

definition ui_onSuccess ::
  "(fn \<Rightarrow> jsval list \<Rightarrow> bool) \<Rightarrow> CheckoutCallbacks \<Rightarrow> jsval \<Rightarrow> unit outcome" where
  "ui_onSuccess throws cbs data =
     andThen (call_host throws OnSuccess (onSuccess cbs) [data]) cleanup"

definition ui_onFailure ::
  "(fn \<Rightarrow> jsval list \<Rightarrow> bool) \<Rightarrow> CheckoutCallbacks \<Rightarrow> jsval \<Rightarrow> unit outcome" where
  "ui_onFailure throws cbs err =
     (case get_prop err ''error'' of
        Inl e \<Rightarrow> ([], Inl e)
      | Inr v \<Rightarrow> andThen (call_host throws OnFailure (onFailure cbs) [v]) cleanup)"

text \<open>What a render returns as \<open>RazorpayUI\<close>, from the values \<open>r\<close> that it has read.\<close>

definition render_UI ::
  "(fn \<Rightarrow> jsval list \<Rightarrow> bool) \<Rightarrow> 'a hook_state_scheme \<Rightarrow> RazorpayCheckoutProps option" where
  "render_UI throws r =
     (if isVisible r then
        (case checkoutOptions r of
           None \<Rightarrow> None
         | Some opts \<Rightarrow>
             (case callbacks r of
                None \<Rightarrow> None
              | Some cbs \<Rightarrow>
                  Some \<lparr>p_options = opts, p_onSuccess = ui_onSuccess throws cbs,
                        p_onFailure = ui_onFailure throws cbs,
                        p_onClose = closeCheckout throws r\<rparr>))
      else None)"

section \<open>The component \<open>RazorpayCheckout\<close>\<close>

subsection \<open>The injected page\<close>

text \<open>
  \<open>const { handler, ...optionsWithoutHandler } = options\<close>: the rest object has every
  own member of the options but \<open>handler\<close>.
\<close>

definition optionsWithoutHandler :: "RazorpayOptions \<Rightarrow> RazorpayOptions" where
  "optionsWithoutHandler options = AList.delete ''handler'' options"

definition optionsString :: "RazorpayOptions \<Rightarrow> text_data option" where
  "optionsString options = JSON_stringify (JObj (optionsWithoutHandler options))"

text \<open>
  The page is the template literal of the component: its text up to \<open>${optionsString}\<close>,
  the characters of \<open>optionsString\<close> as they are, and the rest of its text. The
  interpolation stands inside an inline \<open>script\<close> element.
\<close>

definition page_before :: string where
  \<open>page_before = concat
      [
       [CHR 0x0A],
       ''    <html>'' @ [CHR 0x0A],
       ''      <head>'' @ [CHR 0x0A],
       ''        <meta name="viewport" content="width=device-width, initial-scale=1.0">'' @ [CHR 0x0A],
       ''        <style>'' @ [CHR 0x0A],
       ''          body { display: flex; justify-content: center; align-items: center; background-color: transparent; }'' @ [CHR 0x0A],
       ''        </style>'' @ [CHR 0x0A],
       ''      </head>'' @ [CHR 0x0A],
       ''      <body>'' @ [CHR 0x0A],
       ''        <script src="https://checkout.razorpay.com/v1/checkout.js"></script>'' @ [CHR 0x0A],
       ''        <script>'' @ [CHR 0x0A],
       ''          // 1. Parse the options passed from React Native'' @ [CHR 0x0A],
       ''          var options = ''
      ]\<close>

definition page_after :: string where
  \<open>page_after = concat
      [
       '';'' @ [CHR 0x0A],
       [CHR 0x0A],
       ''          // 2. Attach the Success Handler'' @ [CHR 0x0A],
       ''          options.handler = function (response){'' @ [CHR 0x0A],
       ''            window.ReactNativeWebView.postMessage(JSON.stringify({'' @ [CHR 0x0A],
       ''              type: 'PAYMENT_SUCCESS','' @ [CHR 0x0A],
       ''              data: response'' @ [CHR 0x0A],
       ''            }));'' @ [CHR 0x0A],
       ''          };'' @ [CHR 0x0A],
       [CHR 0x0A],
       ''          // 3. Attach Modal Dismiss (User closed the popup)'' @ [CHR 0x0A],
       ''          options.modal = {'' @ [CHR 0x0A],
       ''            ondismiss: function(){'' @ [CHR 0x0A],
       ''              window.ReactNativeWebView.postMessage(JSON.stringify({'' @ [CHR 0x0A],
       ''                type: 'PAYMENT_CLOSED'' @ [CHR 0x27] @ [CHR 0x0A],
       ''              }));'' @ [CHR 0x0A],
       ''            }'' @ [CHR 0x0A],
       ''          };'' @ [CHR 0x0A],
       [CHR 0x0A],
       ''          var rzp1 = new Razorpay(options);'' @ [CHR 0x0A],
       [CHR 0x0A],
       ''          // 4. Attach Failure Handler (as per your documentation)'' @ [CHR 0x0A],
       ''          rzp1.on('payment.failed', function (response){'' @ [CHR 0x0A],
       ''             window.ReactNativeWebView.postMessage(JSON.stringify({'' @ [CHR 0x0A],
       ''                type: 'PAYMENT_FAILED','' @ [CHR 0x0A],
       ''                error: response.error'' @ [CHR 0x0A],
       ''             }));'' @ [CHR 0x0A],
       ''          });'' @ [CHR 0x0A],
       [CHR 0x0A],
       ''          // 5. Open Widget'' @ [CHR 0x0A],
       ''          rzp1.open();'' @ [CHR 0x0A],
       ''        </script> '' @ [CHR 0x0A],
       ''      </body>'' @ [CHR 0x0A],
       ''    </html>'' @ [CHR 0x0A],
       ''  ''
      ]\<close>

definition htmlContent :: "RazorpayOptions \<Rightarrow> string" where
  "htmlContent options = page_before @ interpolate (optionsString options) @ page_after"

text \<open>
  What the three functions that the page installs on the widget hand to
  \<open>window.ReactNativeWebView.postMessage\<close> when the widget calls them:
  \<open>options.handler\<close> with the response of a payment, \<open>options.modal.ondismiss\<close> without
  argument, and the \<open>payment.failed\<close> listener with a response whose member \<open>error\<close> is
  the widget's error object.
\<close>

definition handler_post :: "jsval \<Rightarrow> text_data option" where
  "handler_post response =
     JSON_stringify (JObj [(''type'', JStr ''PAYMENT_SUCCESS''), (''data'', response)])"

definition ondismiss_post :: "text_data option" where
  "ondismiss_post = JSON_stringify (JObj [(''type'', JStr ''PAYMENT_CLOSED'')])"

definition payment_failed_post :: "jsval \<Rightarrow> error + text_data option" where
  "payment_failed_post response =
     (case get_prop response ''error'' of
        Inl e \<Rightarrow> Inl e
      | Inr err \<Rightarrow>
          Inr (JSON_stringify (JObj [(''type'', JStr ''PAYMENT_FAILED''), (''error'', err)])))"

subsection \<open>Messages and navigation\<close>

definition handleMessage :: "RazorpayCheckoutProps \<Rightarrow> text_data \<Rightarrow> unit outcome" where
  "handleMessage props data =
     (case JSON_parse data of
        Inl e \<Rightarrow> ([], Inl e)
      | Inr message \<Rightarrow>
          (case get_prop message ''type'' of
             Inl e \<Rightarrow> ([], Inl e)
           | Inr t \<Rightarrow>
               if t = JStr ''PAYMENT_SUCCESS'' then
                 (case get_prop message ''data'' of
                    Inl e \<Rightarrow> ([], Inl e)
                  | Inr v \<Rightarrow> p_onSuccess props v)
               else if t = JStr ''PAYMENT_FAILED'' then
                 (case get_prop message ''error'' of
                    Inl e \<Rightarrow> ([], Inl e)
                  | Inr v \<Rightarrow> p_onFailure props v)
               else if t = JStr ''PAYMENT_CLOSED'' then p_onClose props
               else ([], Inr ())))"

text \<open>
  \<open>Linking.openURL\<close> returns a promise; the component attaches a \<open>catch\<close> that logs.
  How the operating system answers for a URL is a parameter.
\<close>

record request =
  url :: string

datatype promise = Resolved | Rejected jsval

definition handleNavigation :: "(string \<Rightarrow> promise) \<Rightarrow> request \<Rightarrow> bool outcome" where
  "handleNavigation openURL request =
     (if \<not> startsWith (url request) ''http'' \<and>
         \<not> startsWith (url request) ''https'' \<and>
         \<not> startsWith (url request) ''about:blank''
      then ([LinkingOpenURL (url request)] @
            (case openURL (url request) of
               Resolved \<Rightarrow> []
             | Rejected err \<Rightarrow> [ConsoleError ''Couldn't open UPI app'']),
            Inr False)
      else ([], Inr True))"

section \<open>The running application\<close>

text \<open>
  The hook's cells together with what surrounds them: a clock in milliseconds, the pending
  timers with the time each is due, every effect performed so far in order, the exceptions
  that left a handler, and the host: which of its functions throw on which arguments.
\<close>

record world = hook_state +
  clock :: nat
  timers :: "(nat \<times> timer_callback) list"
  trace :: "effect list"
  uncaught :: "error list"
  host_throws :: "fn \<Rightarrow> jsval list \<Rightarrow> bool"

definition init :: world where
  "init = \<lparr>isVisible = False, checkoutOptions = None, callbacks = None,
           clock = 0, timers = [], trace = [], uncaught = [],
           host_throws = (\<lambda>f args. False)\<rparr>"

text \<open>
  React renders the hook again when a handler has ended, so the latest render has read the
  cells as they are between two events.
\<close>

definition render :: "world \<Rightarrow> hook_state" where
  "render w =
     \<lparr>isVisible = isVisible w, checkoutOptions = checkoutOptions w, callbacks = callbacks w\<rparr>"

definition RazorpayUI :: "world \<Rightarrow> RazorpayCheckoutProps option" where
  "RazorpayUI w = render_UI (host_throws w) (render w)"

fun apply_setter :: "setter \<Rightarrow> world \<Rightarrow> world" where
  "apply_setter (SetIsVisible b) w = w\<lparr>isVisible := b\<rparr>"
| "apply_setter (SetCheckoutOptions x) w = w\<lparr>checkoutOptions := x\<rparr>"
| "apply_setter (SetCallbacks x) w = w\<lparr>callbacks := x\<rparr>"

fun perform :: "effect \<Rightarrow> world \<Rightarrow> world" where
  "perform (Set x) w = apply_setter x (w\<lparr>trace := trace w @ [Set x]\<rparr>)"
| "perform (SetTimeout cb d) w =
     w\<lparr>timers := timers w @ [(clock w + d, cb)], trace := trace w @ [SetTimeout cb d]\<rparr>"
| "perform e w = w\<lparr>trace := trace w @ [e]\<rparr>"

definition run :: "effect list \<Rightarrow> world \<Rightarrow> world" where
  "run effs w = fold perform effs w"

definition dispatch :: "'a outcome \<Rightarrow> world \<Rightarrow> world" where
  "dispatch out w =
     (let w' = run (fst out) w
      in case snd out of Inl e \<Rightarrow> w'\<lparr>uncaught := uncaught w' @ [e]\<rparr> | Inr r \<Rightarrow> w')"

text \<open>
  Time passes: the timers that have become due run in the order of their due times, the
  others stay.
\<close>

definition elapse :: "nat \<Rightarrow> world \<Rightarrow> world" where
  "elapse d w =
     (let now = clock w + d;
          due = sort_key fst (filter (\<lambda>(t, cb). t \<le> now) (timers w));
          rest = filter (\<lambda>(t, cb). \<not> t \<le> now) (timers w)
      in run (map Set (concat (map (\<lambda>(t, cb). timer_body cb) due)))
             (w\<lparr>clock := now, timers := rest\<rparr>))"

text \<open>
  The events. The host calls \<open>openCheckout\<close> or \<open>closeCheckout\<close>: the function it calls
  was created by some render \<open>r\<close> of the hook, the latest (\<open>render w\<close>) or an earlier one
  that the host has kept, for instance in a callback or across an \<open>await\<close>, and reads
  the values of that render. The web view delivers a message, asks whether to load a
  request (with the answer the operating system will give to the link opener), or the modal
  reports the back gesture: these reach the component of the latest render, which exists
  only while its \<open>RazorpayUI\<close> is not null. Time passes.
\<close>

datatype event =
    OpenCheckout hook_state RazorpayOptions CheckoutCallbacks
  | CloseCheckout hook_state
  | OnMessage text_data
  | OnRequestClose
  | OnShouldStartLoadWithRequest request promise
  | Elapse nat

fun step :: "event \<Rightarrow> world \<Rightarrow> world" where
  "step (OpenCheckout r options cbs) w = dispatch (openCheckout r options cbs) w"
| "step (CloseCheckout r) w = dispatch (closeCheckout (host_throws w) r) w"
| "step (OnMessage data) w =
     (case RazorpayUI w of None \<Rightarrow> w | Some props \<Rightarrow> dispatch (handleMessage props data) w)"
| "step OnRequestClose w =
     (case RazorpayUI w of None \<Rightarrow> w | Some props \<Rightarrow> dispatch (p_onClose props) w)"
| "step (OnShouldStartLoadWithRequest req answer) w =
     (case RazorpayUI w of
        None \<Rightarrow> w
      | Some props \<Rightarrow> dispatch (handleNavigation (\<lambda>u. answer) req) w)"
| "step (Elapse d) w = elapse d w"

definition exec :: "event list \<Rightarrow> world \<Rightarrow> world" where
  "exec evs w = fold step evs w"

text \<open>The effects performed between two states, and the calls of host functions among effects.\<close>

definition fresh :: "world \<Rightarrow> world \<Rightarrow> effect list" where
  "fresh w w' = drop (length (trace w)) (trace w')"

fun is_invoke :: "effect \<Rightarrow> bool" where
  "is_invoke (Invoke r f args) = True"
| "is_invoke e = False"

fun is_terminal :: "effect \<Rightarrow> bool" where
  "is_terminal (Invoke OnSuccess f args) = True"
| "is_terminal (Invoke OnFailure f args) = True"
| "is_terminal e = False"

definition invocations :: "effect list \<Rightarrow> effect list" where
  "invocations effs = filter is_invoke effs"

fun is_role :: "role \<Rightarrow> effect \<Rightarrow> bool" where
  "is_role r (Invoke r' f args) = (r = r')"
| "is_role r e = False"

text \<open>The setter calls of a list of timers that have become due.\<close>

definition clears :: "(nat \<times> timer_callback) list \<Rightarrow> effect list" where
  "clears due = map Set (concat (map (\<lambda>(t, cb). timer_body cb) due))"

text \<open>Events other than a call of \<open>openCheckout\<close>, and other than a call of \<open>closeCheckout\<close> by the host.\<close>

fun no_open :: "event \<Rightarrow> bool" where
  "no_open (OpenCheckout r opts cbs) = False"
| "no_open ev = True"


text \<open>
  The host's \<open>onSuccess\<close> and \<open>onFailure\<close> of the stored callbacks return normally,
  whatever they are called with.
\<close>

definition results_return :: "world \<Rightarrow> bool" where
  "results_return w \<longleftrightarrow>
     (case callbacks w of
        None \<Rightarrow> True
      | Some cbs \<Rightarrow>
          (\<forall>args. \<not> host_throws w (onSuccess cbs) args \<and>
                  \<not> host_throws w (onFailure cbs) args))"




text \<open>
  Effects that write neither the options nor the callbacks, and effects that touch neither
  the cells of the hook nor the timers.
\<close>

fun keeps :: "effect \<Rightarrow> bool" where
  "keeps (Set (SetCheckoutOptions x)) = False"
| "keeps (Set (SetCallbacks x)) = False"
| "keeps e = True"

fun inert :: "effect \<Rightarrow> bool" where
  "inert (Set x) = False"
| "inert (SetTimeout cb d) = False"
| "inert e = True"

subsection \<open>The specification's reading of a URL\<close>

text \<open>
  The specification speaks of the scheme of a URL, the part before the first colon, and
  of the blank placeholder page. These three definitions follow its words; the component
  itself tests prefixes of the URL (\<open>handleNavigation\<close>).
\<close>

definition spec_scheme_of :: "string \<Rightarrow> string option" where
  "spec_scheme_of u =
     (if CHR '':'' \<in> set u then Some (takeWhile (\<lambda>c. c \<noteq> CHR '':'') u) else None)"

definition spec_web_scheme :: "string \<Rightarrow> bool" where
  "spec_web_scheme u \<longleftrightarrow> spec_scheme_of u = Some ''http'' \<or> spec_scheme_of u = Some ''https''"

definition spec_blank_page :: "string \<Rightarrow> bool" where
  "spec_blank_page u \<longleftrightarrow> u = ''about:blank''"

subsection \<open>A host and a widget to run the model on\<close>

definition example_options :: RazorpayOptions where
  "example_options =
     [(''key'', JStr ''k1''), (''amount'', JNum 500), (''currency'', JStr ''INR''),
      (''order_id'', JStr ''o1''), (''name'', JStr ''Shop''), (''handler'', JFun (HostFn 9))]"

definition example_callbacks :: CheckoutCallbacks where
  "example_callbacks = \<lparr>onSuccess = HostFn 1, onFailure = HostFn 2, onClose = Some (HostFn 3)\<rparr>"

definition other_options :: RazorpayOptions where
  "other_options =
     [(''key'', JStr ''k1''), (''amount'', JNum 900), (''currency'', JStr ''INR''),
      (''order_id'', JStr ''o2''), (''name'', JStr ''Shop'')]"

definition other_callbacks :: CheckoutCallbacks where
  "other_callbacks = \<lparr>onSuccess = HostFn 4, onFailure = HostFn 5, onClose = None\<rparr>"

definition example_payment :: jsval where
  "example_payment =
     JObj [(''razorpay_payment_id'', JStr ''p1''), (''razorpay_order_id'', JStr ''o1''),
           (''razorpay_signature'', JStr ''sig'')]"

definition example_error :: jsval where
  "example_error =
     JObj [(''code'', JStr ''GATEWAY_ERROR''), (''source'', JStr ''gateway''),
           (''reason'', JStr ''payment_failed''), (''step'', JStr ''payment_authorization''),
           (''description'', JStr ''declined'')]"

definition success_message :: text_data where
  "success_message =
     JSON_text (JObj [(''type'', JStr ''PAYMENT_SUCCESS''), (''data'', example_payment)])"

definition failed_message :: text_data where
  "failed_message =
     JSON_text (JObj [(''type'', JStr ''PAYMENT_FAILED''), (''error'', example_error)])"

definition closed_message :: text_data where
  "closed_message = JSON_text (JObj [(''type'', JStr ''PAYMENT_CLOSED'')])"

text \<open>The host has opened the checkout from the first render.\<close>

definition example_session :: world where
  "example_session = step (OpenCheckout (render init) example_options example_callbacks) init"

text \<open>Options whose shop name is the end tag of a script element.\<close>

definition breaking_options :: RazorpayOptions where
  "breaking_options =
     [(''key'', JStr ''k1''), (''amount'', JNum 500), (''name'', JStr ''</script>'')]"

section \<open>Facts about the model\<close>

lemma run_Nil [simp]: "run [] w = w"
  by (simp add: run_def)

lemma run_Cons [simp]: "run (e # effs) w = run effs (perform e w)"
  by (simp add: run_def)

lemma run_append: "run (xs @ ys) w = run ys (run xs w)"
  by (simp add: run_def)

lemma exec_Nil [simp]: "exec [] w = w"
  by (simp add: exec_def)

lemma exec_Cons [simp]: "exec (ev # evs) w = exec evs (step ev w)"
  by (simp add: exec_def)

lemma render_fields [simp]:
  "isVisible (render w) = isVisible w"
  "checkoutOptions (render w) = checkoutOptions w"
  "callbacks (render w) = callbacks w"
  by (simp_all add: render_def)

lemma fst_performs [simp]: "fst (performs effs) = effs"
  by (simp add: performs_def)

lemma snd_performs [simp]: "snd (performs effs) = Inr ()"
  by (simp add: performs_def)

lemma andThen_performs [simp]: "andThen (performs effs) b = (effs @ fst b, snd b)"
  by (simp add: andThen_def performs_def)

lemma andThen_call_host [simp]:
  "andThen (call_host throws r f args) b =
     (if throws f args then ([Invoke r f args], Inl HostError)
      else (Invoke r f args # fst b, snd b))"
  by (simp add: andThen_def call_host_def)

text \<open>The trace only grows, by the effects performed.\<close>

lemma trace_perform [simp]: "trace (perform e w) = trace w @ [e]"
  by (cases e; cases "e"; simp) (rename_tac x, case_tac x; simp)+

lemma trace_run [simp]: "trace (run effs w) = trace w @ effs"
  by (induction effs arbitrary: w) simp_all

lemma trace_dispatch [simp]: "trace (dispatch out w) = trace w @ fst out"
  by (simp add: dispatch_def Let_def split: sum.splits)

lemma fresh_same [simp]: "fresh w w = []"
  by (simp add: fresh_def)

lemma fresh_run [simp]: "fresh w (run effs w) = effs"
  by (simp add: fresh_def)

lemma fresh_dispatch [simp]: "fresh w (dispatch out w) = fst out"
  by (simp add: fresh_def)


text \<open>No effect changes the clock, the uncaught exceptions or the host.\<close>

lemma apply_setter_fixed [simp]:
  "clock (apply_setter x w) = clock w"
  "uncaught (apply_setter x w) = uncaught w"
  "host_throws (apply_setter x w) = host_throws w"
  "timers (apply_setter x w) = timers w"
  "trace (apply_setter x w) = trace w"
  by (cases x; simp)+

lemma perform_fixed [simp]:
  "clock (perform e w) = clock w"
  "uncaught (perform e w) = uncaught w"
  "host_throws (perform e w) = host_throws w"
  by (cases e; simp)+

lemma run_fixed [simp]:
  "clock (run effs w) = clock w"
  "uncaught (run effs w) = uncaught w"
  "host_throws (run effs w) = host_throws w"
  by (induction effs arbitrary: w; simp)+

lemma dispatch_fixed [simp]:
  "clock (dispatch out w) = clock w"
  "host_throws (dispatch out w) = host_throws w"
  "isVisible (dispatch out w) = isVisible (run (fst out) w)"
  "checkoutOptions (dispatch out w) = checkoutOptions (run (fst out) w)"
  "callbacks (dispatch out w) = callbacks (run (fst out) w)"
  "timers (dispatch out w) = timers (run (fst out) w)"
  by (simp_all add: dispatch_def Let_def split: sum.splits)

lemma dispatch_uncaught:
  "uncaught (dispatch out w) =
     uncaught w @ (case snd out of Inl e \<Rightarrow> [e] | Inr x \<Rightarrow> [])"
  by (simp add: dispatch_def Let_def split: sum.splits)

lemma perform_keeps:
  assumes "keeps e"
  shows "checkoutOptions (perform e w) = checkoutOptions w"
    "callbacks (perform e w) = callbacks w"
proof -
  show "checkoutOptions (perform e w) = checkoutOptions w"
  proof (cases e)
    case (Set x)
    with assms show ?thesis by (cases x) simp_all
  qed simp_all
  show "callbacks (perform e w) = callbacks w"
  proof (cases e)
    case (Set x)
    with assms show ?thesis by (cases x) simp_all
  qed simp_all
qed

lemma run_keeps:
  assumes "list_all keeps effs"
  shows "checkoutOptions (run effs w) = checkoutOptions w"
    "callbacks (run effs w) = callbacks w"
  using assms by (induction effs arbitrary: w; simp add: perform_keeps)+

lemma perform_inert:
  assumes "inert e"
  shows "isVisible (perform e w) = isVisible w" "timers (perform e w) = timers w"
    "checkoutOptions (perform e w) = checkoutOptions w" "callbacks (perform e w) = callbacks w"
  using assms by (cases e; simp)+

lemma run_inert:
  assumes "list_all inert effs"
  shows "isVisible (run effs w) = isVisible w" "timers (run effs w) = timers w"
    "checkoutOptions (run effs w) = checkoutOptions w" "callbacks (run effs w) = callbacks w"
  using assms by (induction effs arbitrary: w; simp add: perform_inert)+

subsection \<open>Timers\<close>

lemma clears_Nil [simp]: "clears [] = []"
  by (simp add: clears_def)

lemma clears_Cons [simp]:
  "clears ((t, cb) # due) = Set (SetCallbacks None) # Set (SetCheckoutOptions None) # clears due"
  by (cases cb) (simp add: clears_def)

lemma run_clears_fields [simp]:
  "isVisible (run (clears due) w) = isVisible w"
  "timers (run (clears due) w) = timers w"
  "callbacks (run (clears due) w) = (if due = [] then callbacks w else None)"
  "checkoutOptions (run (clears due) w) = (if due = [] then checkoutOptions w else None)"
  by (induction due arbitrary: w; force)+

lemma no_invoke_clears [simp]: "filter is_invoke (clears due) = []"
  by (induction due) auto

lemma no_terminal_clears [simp]: "filter is_terminal (clears due) = []"
  by (induction due) auto

lemma sort_key_Nil_iff [simp]: "sort_key f xs = [] \<longleftrightarrow> xs = []"
  by (metis length_sort length_0_conv)

lemma elapse_unfold:
  "elapse d w =
     run (clears (sort_key fst (filter (\<lambda>(t, cb). t \<le> clock w + d) (timers w))))
         (w\<lparr>clock := clock w + d,
            timers := filter (\<lambda>(t, cb). \<not> t \<le> clock w + d) (timers w)\<rparr>)"
  by (simp add: elapse_def clears_def Let_def)

lemma elapse_fields [simp]:
  "isVisible (elapse d w) = isVisible w"
  "clock (elapse d w) = clock w + d"
  "timers (elapse d w) = filter (\<lambda>(t, cb). \<not> t \<le> clock w + d) (timers w)"
  "uncaught (elapse d w) = uncaught w"
  "host_throws (elapse d w) = host_throws w"
  "callbacks (elapse d w) =
     (if filter (\<lambda>(t, cb). t \<le> clock w + d) (timers w) = [] then callbacks w else None)"
  "checkoutOptions (elapse d w) =
     (if filter (\<lambda>(t, cb). t \<le> clock w + d) (timers w) = [] then checkoutOptions w
      else None)"
  by (simp_all add: elapse_unfold)


lemma not_due_yet:
  "list_all (\<lambda>(t, cb). now < t) ts \<Longrightarrow> filter (\<lambda>(t, cb). t \<le> (now::nat)) ts = []"
  by (induction ts) auto

subsection \<open>The two functions of the hook\<close>

lemma openCheckout_visible: "isVisible r \<Longrightarrow> openCheckout r opts cbs = ([], Inr ())"
  by (simp add: openCheckout_def performs_def)

lemma openCheckout_hidden:
  "\<not> isVisible r \<Longrightarrow>
     openCheckout r opts cbs =
       ([Set (SetCheckoutOptions (Some opts)), Set (SetCallbacks (Some cbs)),
         Set (SetIsVisible True)], Inr ())"
  by (simp add: openCheckout_def performs_def)

lemma closeCheckout_None:
  "callbacks r = None \<Longrightarrow>
     closeCheckout throws r = ([Set (SetIsVisible False), SetTimeout ClearRequest 100], Inr ())"
  by (simp add: closeCheckout_def)

lemma closeCheckout_cases:
  "closeCheckout throws r = ([Set (SetIsVisible False), SetTimeout ClearRequest 100], Inr ()) \<or>
   (\<exists>f. closeCheckout throws r =
          ([Set (SetIsVisible False), Invoke OnClose f [], SetTimeout ClearRequest 100], Inr ())) \<or>
   (\<exists>f. closeCheckout throws r = ([Set (SetIsVisible False), Invoke OnClose f []], Inl HostError))"
  by (simp add: closeCheckout_def split: option.splits)

lemma closeCheckout_not_terminal [simp]: "filter is_terminal (fst (closeCheckout throws r)) = []"
  using closeCheckout_cases [of throws r] by auto

lemma closeCheckout_keeps [simp]: "list_all keeps (fst (closeCheckout throws r))"
  using closeCheckout_cases [of throws r] by auto

lemma close_fields [simp]:
  "isVisible (run (fst (closeCheckout throws r)) w) = False"
  "checkoutOptions (run (fst (closeCheckout throws r)) w) = checkoutOptions w"
  "callbacks (run (fst (closeCheckout throws r)) w) = callbacks w"
  using closeCheckout_cases [of throws r] by auto

lemma close_timers:
  "timers (run (fst (closeCheckout throws r)) w) =
     timers w @ (case snd (closeCheckout throws r) of
                   Inl e \<Rightarrow> [] | Inr u \<Rightarrow> [(clock w + 100, ClearRequest)])"
  using closeCheckout_cases [of throws r] by auto

lemma render_UI_invisible [simp]: "\<not> isVisible r \<Longrightarrow> render_UI throws r = None"
  by (simp add: render_UI_def)

lemma RazorpayUI_invisible [simp]: "\<not> isVisible w \<Longrightarrow> RazorpayUI w = None"
  by (simp add: RazorpayUI_def)

lemma RazorpayUI_cong:
  "isVisible w' = isVisible w \<Longrightarrow> checkoutOptions w' = checkoutOptions w \<Longrightarrow>
   callbacks w' = callbacks w \<Longrightarrow> host_throws w' = host_throws w \<Longrightarrow>
   RazorpayUI w' = RazorpayUI w"
  by (simp add: RazorpayUI_def render_def)

lemma RazorpayUI_mounted:
  assumes "isVisible w" "checkoutOptions w = Some opts" "callbacks w = Some cbs"
  shows "RazorpayUI w =
           Some \<lparr>p_options = opts, p_onSuccess = ui_onSuccess (host_throws w) cbs,
                 p_onFailure = ui_onFailure (host_throws w) cbs,
                 p_onClose = closeCheckout (host_throws w) (render w)\<rparr>"
  using assms by (simp add: RazorpayUI_def render_UI_def)

lemma RazorpayUI_props:
  assumes "RazorpayUI w = Some props"
  obtains opts cbs where "isVisible w" "checkoutOptions w = Some opts" "callbacks w = Some cbs"
    "props = \<lparr>p_options = opts, p_onSuccess = ui_onSuccess (host_throws w) cbs,
              p_onFailure = ui_onFailure (host_throws w) cbs,
              p_onClose = closeCheckout (host_throws w) (render w)\<rparr>"
  using assms by (auto simp: RazorpayUI_def render_UI_def split: if_splits option.splits)

subsection \<open>Sessions\<close>






lemma inert_keeps: "list_all inert effs \<Longrightarrow> list_all keeps effs"
proof (induction effs)
  case (Cons e effs)
  then show ?case by (cases e) simp_all
qed simp

lemma handleNavigation_returns: "\<exists>b. snd (handleNavigation openURL req) = Inr b"
  by (auto simp: handleNavigation_def)

lemma handleNavigation_quiet: "filter is_invoke (fst (handleNavigation f req)) = []"
  by (simp add: handleNavigation_def split: promise.splits)

lemma handleNavigation_inert: "list_all inert (fst (handleNavigation openURL req))"
  by (cases "openURL (url req)") (simp_all add: handleNavigation_def)



lemma ui_keeps:
  "list_all keeps (fst (ui_onSuccess throws cbs v))"
  "list_all keeps (fst (ui_onFailure throws cbs v))"
  by (simp_all add: ui_onSuccess_def ui_onFailure_def cleanup_def split: sum.splits)

lemma handleMessage_keeps:
  assumes "RazorpayUI w = Some props"
  shows "list_all keeps (fst (handleMessage props data))"
proof -
  from assms obtain opts cbs where
    p: "props = \<lparr>p_options = opts, p_onSuccess = ui_onSuccess (host_throws w) cbs,
              p_onFailure = ui_onFailure (host_throws w) cbs,
              p_onClose = closeCheckout (host_throws w) (render w)\<rparr>"
    by (rule RazorpayUI_props)
  show ?thesis
    unfolding handleMessage_def p by (simp add: ui_keeps split: sum.splits)
qed











text \<open>Without \<open>openCheckout\<close> the stored callbacks stay or go, and the host stays.\<close>

lemma step_callbacks:
  assumes "no_open ev"
  shows "callbacks (step ev w) = callbacks w \<or> callbacks (step ev w) = None"
proof (cases ev)
  case (OpenCheckout r opts cbs)
  with assms show ?thesis by simp
next
  case (CloseCheckout r)
  then show ?thesis by simp
next
  case (OnMessage data)
  then show ?thesis
    by (cases "RazorpayUI w") (simp_all add: run_keeps handleMessage_keeps)
next
  case OnRequestClose
  show ?thesis
  proof (cases "RazorpayUI w")
    case None
    with OnRequestClose show ?thesis by simp
  next
    case (Some props)
    then have "p_onClose props = closeCheckout (host_throws w) (render w)"
      by (rule RazorpayUI_props) simp
    with OnRequestClose Some show ?thesis by simp
  qed
next
  case (OnShouldStartLoadWithRequest req answer)
  then show ?thesis
    by (cases "RazorpayUI w") (simp_all add: run_inert handleNavigation_inert)
next
  case (Elapse d)
  then show ?thesis by simp
qed

lemma step_host [simp]: "host_throws (step ev w) = host_throws w"
  by (cases ev) (simp_all split: option.splits)

lemma results_return_step:
  assumes "no_open ev" and "results_return w"
  shows "results_return (step ev w)"
  using step_callbacks [OF assms(1), of w] assms(2)
  by (auto simp: results_return_def split: option.splits)

lemma results_return_exec:
  "list_all no_open evs \<Longrightarrow> results_return w \<Longrightarrow> results_return (exec evs w)"
  by (induction evs arbitrary: w) (auto simp: results_return_step)


lemma open_only_shows:
  assumes "no_open ev" and "\<not> isVisible w"
  shows "\<not> isVisible (step ev w)"
  using assms by (cases ev) simp_all



lemma invisible_exec:
  "list_all no_open evs \<Longrightarrow> \<not> isVisible w \<Longrightarrow> \<not> isVisible (exec evs w)"
  by (induction evs arbitrary: w) (auto simp: open_only_shows)




lemmas model_defs =
  init_def example_session_def example_options_def example_callbacks_def other_options_def
  other_callbacks_def example_payment_def example_error_def success_message_def
  failed_message_def closed_message_def openCheckout_def closeCheckout_def cleanup_def
  RazorpayUI_def render_UI_def render_def ui_onSuccess_def ui_onFailure_def handleMessage_def
  dispatch_def invocations_def fresh_def Let_def

lemma startsWith_shorter:
  assumes "startsWith u (p @ q)"
  shows "startsWith u p"
proof -
  from assms have e: "take (length (p @ q)) u = p @ q"
    by (simp add: startsWith_def)
  have "take (length p) u = take (length p) (take (length (p @ q)) u)"
    by (simp add: min_def)
  also have "\<dots> = take (length p) (p @ q)"
    by (simp only: e)
  finally show ?thesis by (simp add: startsWith_def)
qed

lemma startsWith_https: "startsWith u ''https'' \<Longrightarrow> startsWith u ''http''"
  using startsWith_shorter [of u "''http''" "''s''"] by simp

lemma ondismiss_post_eq: "ondismiss_post = Some closed_message"
  by (simp add: ondismiss_post_def closed_message_def JSON_stringify_def List.map_filter_simps)

lemma handleMessage_closed:
  "handleMessage props closed_message = p_onClose props"
  by (simp add: handleMessage_def closed_message_def)

lemma step_navigation_fields:
  "isVisible (step (OnShouldStartLoadWithRequest req answer) w) = isVisible w"
  "checkoutOptions (step (OnShouldStartLoadWithRequest req answer) w) = checkoutOptions w"
  "callbacks (step (OnShouldStartLoadWithRequest req answer) w) = callbacks w"
  "timers (step (OnShouldStartLoadWithRequest req answer) w) = timers w"
  "uncaught (step (OnShouldStartLoadWithRequest req answer) w) = uncaught w"
proof -
  obtain b where b: "snd (handleNavigation (\<lambda>u. answer) req) = Inr b"
    using handleNavigation_returns by blast
  note i = run_inert [OF handleNavigation_inert]
  show "isVisible (step (OnShouldStartLoadWithRequest req answer) w) = isVisible w"
    by (cases "RazorpayUI w") (simp_all add: i)
  show "checkoutOptions (step (OnShouldStartLoadWithRequest req answer) w) = checkoutOptions w"
    by (cases "RazorpayUI w") (simp_all add: i)
  show "callbacks (step (OnShouldStartLoadWithRequest req answer) w) = callbacks w"
    by (cases "RazorpayUI w") (simp_all add: i)
  show "timers (step (OnShouldStartLoadWithRequest req answer) w) = timers w"
    by (cases "RazorpayUI w") (simp_all add: i)
  show "uncaught (step (OnShouldStartLoadWithRequest req answer) w) = uncaught w"
    by (cases "RazorpayUI w") (simp_all add: dispatch_uncaught b)
qed

section \<open>Callbacks of one session\<close>




section \<open>The failure payload\<close>

text \<open>
  C2. When the widget reports a failed payment the host's \<open>onFailure\<close> is to be called
  once with the widget's error object. The listener in the page posts that object as the
  member \<open>error\<close> of the message, \<open>handleMessage\<close> hands this member to the
  \<open>onFailure\<close> prop, and the wrapper in \<open>RazorpayUI\<close> reads the member \<open>error\<close> of
  what it is given once more. The widget's error object has no such member: \<open>onFailure\<close>
  is called once, with \<open>undefined\<close>.
\<close>

theorem failure_payload_dropped:
  "payment_failed_post (JObj [(''error'', example_error)]) = Inr (Some failed_message) \<and>
   invocations (fresh example_session (step (OnMessage failed_message) example_session)) =
     [Invoke OnFailure (HostFn 2) [JUndefined]]"
  by (simp add: payment_failed_post_def JSON_stringify_def List.map_filter_simps model_defs)

section \<open>\<open>closeCheckout\<close> when nothing is open\<close>

text \<open>
  C3, as stated: whenever the hook is idle, \<open>closeCheckout\<close> calls nothing and changes
  nothing, and it is idempotent. Right after a first \<open>closeCheckout\<close> the hook is not
  visible and renders nothing, but the callbacks are still stored, and the
  \<open>closeCheckout\<close> of the render that follows calls \<open>onClose\<close> again.
\<close>

theorem close_twice_counterexample:
  "\<not> isVisible (step (CloseCheckout (render example_session)) example_session) \<and>
   RazorpayUI (step (CloseCheckout (render example_session)) example_session) = None \<and>
   invocations
     (fresh (step (CloseCheckout (render example_session)) example_session)
        (step (CloseCheckout
                 (render (step (CloseCheckout (render example_session)) example_session)))
           (step (CloseCheckout (render example_session)) example_session))) =
     [Invoke OnClose (HostFn 3) []]"
  by (simp add: model_defs)

text \<open>
  C3, amended. \<open>closeCheckout\<close> tests the callbacks that the render which created it has
  read. Called through the function of a render in which no callbacks are stored, while
  the hook is not visible, it calls no host function and leaves visibility, the stored
  options, the stored callbacks, the rendered surface and the uncaught exceptions as they
  are; it only adds one more pending clear. A second call through the same function
  behaves the same. When no callbacks are stored, the latest render is such a render.
\<close>

theorem close_when_cleared:
  assumes "\<not> isVisible w" and "callbacks r = None"
  shows "let w1 = step (CloseCheckout r) w
         in invocations (fresh w w1) = [] \<and>
            isVisible w1 = isVisible w \<and> checkoutOptions w1 = checkoutOptions w \<and>
            callbacks w1 = callbacks w \<and> RazorpayUI w1 = RazorpayUI w \<and>
            uncaught w1 = uncaught w \<and>
            timers w1 = timers w @ [(clock w + 100, ClearRequest)] \<and>
            (let w2 = step (CloseCheckout r) w1
             in invocations (fresh w1 w2) = [] \<and>
                isVisible w2 = isVisible w1 \<and> checkoutOptions w2 = checkoutOptions w1 \<and>
                callbacks w2 = callbacks w1 \<and> RazorpayUI w2 = RazorpayUI w1 \<and>
                uncaught w2 = uncaught w1)"
proof -
  have c: "closeCheckout throws r =
      ([Set (SetIsVisible False), SetTimeout ClearRequest 100], Inr ())" for throws
    using assms(2) by (rule closeCheckout_None)
  define w1 where "w1 = step (CloseCheckout r) w"
  have 1: "invocations (fresh w w1) = []" "isVisible w1 = isVisible w"
    "checkoutOptions w1 = checkoutOptions w" "callbacks w1 = callbacks w"
    "uncaught w1 = uncaught w" "host_throws w1 = host_throws w"
    "timers w1 = timers w @ [(clock w + 100, ClearRequest)]"
    using assms(1) by (simp_all add: w1_def c invocations_def dispatch_uncaught)
  from 1 have u1: "RazorpayUI w1 = RazorpayUI w"
    by (intro RazorpayUI_cong)
  define w2 where "w2 = step (CloseCheckout r) w1"
  have 2: "invocations (fresh w1 w2) = []" "isVisible w2 = isVisible w1"
    "checkoutOptions w2 = checkoutOptions w1" "callbacks w2 = callbacks w1"
    "uncaught w2 = uncaught w1" "host_throws w2 = host_throws w1"
    using assms(1) 1(2) by (simp_all add: w2_def c invocations_def dispatch_uncaught)
  from 2 have u2: "RazorpayUI w2 = RazorpayUI w1"
    by (intro RazorpayUI_cong)
  from 1 u1 2 u2 show ?thesis
    unfolding w1_def [symmetric] w2_def [symmetric] Let_def by simp
qed

theorem close_when_cleared_witness:
  "\<not> isVisible init \<and> callbacks (render init) = None \<and>
   invocations (fresh init (step (CloseCheckout (render init)) init)) = [] \<and>
   callbacks (step (CloseCheckout (render init)) init) = None \<and>
   timers (step (CloseCheckout (render init)) init) = [(100, ClearRequest)]"
proof -
  have h: "\<not> isVisible init" "callbacks (render init) = None" "timers init = []"
    "clock init = 0" "callbacks init = None"
    by (simp_all add: init_def)
  from close_when_cleared [OF h(1,2)] h show ?thesis
    by (simp add: Let_def)
qed

section \<open>The throttle of \<open>openCheckout\<close>\<close>

text \<open>
  C4. A call of \<open>openCheckout\<close> made while a request is stored and visible is to change
  nothing. The guard of \<open>openCheckout\<close> tests the \<open>isVisible\<close> that the render which
  created the function has read. The host calls the function of the first render twice, as
  two calls in one handler or two handlers that have awaited do: the second call is made
  while the first request is stored, visible and mounted, passes the guard and replaces
  the options and the callbacks.
\<close>

theorem open_twice_replaces:
  "isVisible example_session \<and> checkoutOptions example_session = Some example_options \<and>
   callbacks example_session = Some example_callbacks \<and>
   RazorpayUI example_session \<noteq> None \<and>
   checkoutOptions (step (OpenCheckout (render init) other_options other_callbacks)
                      example_session) = Some other_options \<and>
   callbacks (step (OpenCheckout (render init) other_options other_callbacks)
                example_session) = Some other_callbacks"
  by (simp add: model_defs)

section \<open>The effects of \<open>closeCheckout\<close>\<close>

text \<open>
  C5. \<open>closeCheckout\<close>, called while a request is active, is to set visibility to false,
  call the \<open>onClose\<close> of the active request and schedule the clear. The function tests
  the callbacks that the render which created it has read. The host calls the
  \<open>closeCheckout\<close> of the first render, as a callback that was passed to
  \<open>openCheckout\<close> and closes the checkout does: that render has read no callbacks, and
  the \<open>onClose\<close> of the active request is not called.
\<close>

theorem stale_close_skips_onClose:
  "isVisible example_session \<and> callbacks example_session = Some example_callbacks \<and>
   onClose example_callbacks = Some (HostFn 3) \<and>
   fresh example_session (step (CloseCheckout (render init)) example_session) =
     [Set (SetIsVisible False), SetTimeout ClearRequest 100]"
  by (simp add: model_defs)

section \<open>Dismissal\<close>

text \<open>
  C6. While the widget is mounted, the message that the page's \<open>ondismiss\<close> posts makes
  the hook invisible and unmounted, and the only host function called is the \<open>onClose\<close>
  of the stored callbacks (none when the host gave no \<open>onClose\<close>); in particular
  \<open>onFailure\<close> is not called. Nothing is thrown but what \<open>onClose\<close> itself throws.
\<close>

theorem dismissed_routes_to_onClose:
  assumes "isVisible w" and "checkoutOptions w = Some opts" and "callbacks w = Some cbs"
    and "ondismiss_post = Some m"
  shows "let w1 = step (OnMessage m) w
         in \<not> isVisible w1 \<and> RazorpayUI w1 = None \<and>
            uncaught w1 =
              uncaught w @
              (case onClose cbs of
                 None \<Rightarrow> []
               | Some f \<Rightarrow> if host_throws w f [] then [HostError] else []) \<and>
            invocations (fresh w w1) =
              (case onClose cbs of None \<Rightarrow> [] | Some f \<Rightarrow> [Invoke OnClose f []]) \<and>
            filter (is_role OnFailure) (fresh w w1) = []"
proof -
  from assms(4) have m: "m = closed_message"
    by (simp add: ondismiss_post_eq)
  have st: "step (OnMessage m) w = dispatch (closeCheckout (host_throws w) (render w)) w"
    using RazorpayUI_mounted [OF assms(1-3)]
    by (simp add: m handleMessage_closed)
  have "fst (closeCheckout (host_throws w) (render w)) =
      [Set (SetIsVisible False)] @
      (case onClose cbs of None \<Rightarrow> [] | Some f \<Rightarrow> [Invoke OnClose f []]) @
      (case onClose cbs of
         None \<Rightarrow> [SetTimeout ClearRequest 100]
       | Some f \<Rightarrow> if host_throws w f [] then [] else [SetTimeout ClearRequest 100])"
    and s: "snd (closeCheckout (host_throws w) (render w)) =
      (case onClose cbs of
         None \<Rightarrow> Inr ()
       | Some f \<Rightarrow> if host_throws w f [] then Inl HostError else Inr ())"
    using assms(3) by (simp_all add: closeCheckout_def split: option.splits)
  then have "invocations (fst (closeCheckout (host_throws w) (render w))) =
      (case onClose cbs of None \<Rightarrow> [] | Some f \<Rightarrow> [Invoke OnClose f []])"
    and "filter (is_role OnFailure) (fst (closeCheckout (host_throws w) (render w))) = []"
    by (simp_all add: invocations_def split: option.splits)
  moreover have "uncaught (dispatch (closeCheckout (host_throws w) (render w)) w) =
      uncaught w @
      (case onClose cbs of
         None \<Rightarrow> []
       | Some f \<Rightarrow> if host_throws w f [] then [HostError] else [])"
    by (simp add: dispatch_uncaught s split: option.splits)
  ultimately show ?thesis
    unfolding st Let_def by simp
qed

theorem dismissed_routes_to_onClose_witness:
  "isVisible example_session \<and> checkoutOptions example_session = Some example_options \<and>
   callbacks example_session = Some example_callbacks \<and>
   ondismiss_post = Some closed_message \<and>
   \<not> isVisible (step (OnMessage closed_message) example_session) \<and>
   invocations (fresh example_session (step (OnMessage closed_message) example_session)) =
     [Invoke OnClose (HostFn 3) []] \<and>
   filter (is_role OnFailure)
     (fresh example_session (step (OnMessage closed_message) example_session)) = []"
proof -
  have h: "isVisible example_session" "checkoutOptions example_session = Some example_options"
    "callbacks example_session = Some example_callbacks"
    by (simp_all add: example_session_def init_def openCheckout_def dispatch_def Let_def)
  have c: "onClose example_callbacks = Some (HostFn 3)"
    by (simp add: example_callbacks_def)
  from dismissed_routes_to_onClose [OF h ondismiss_post_eq] h c ondismiss_post_eq
  show ?thesis by (simp add: Let_def)
qed

section \<open>Navigation\<close>

text \<open>
  C7. A URL whose scheme is neither \<open>http\<close> nor \<open>https\<close> and which is not the blank
  page is to be handed to the link opener and not loaded. The component tests whether the
  URL begins with the characters \<open>http\<close>: a URL with the scheme \<open>httpx\<close> is loaded and
  not handed over.
\<close>

theorem navigation_httpx_loaded:
  "\<not> spec_web_scheme ''httpx://pay'' \<and> \<not> spec_blank_page ''httpx://pay'' \<and>
   handleNavigation (\<lambda>u. Resolved) \<lparr>url = ''httpx://pay''\<rparr> = ([], Inr True)"
  by (simp add: spec_web_scheme_def spec_scheme_of_def spec_blank_page_def handleNavigation_def
      startsWith_def)

text \<open>
  C8. \<open>handleNavigation\<close> always returns a value and calls no host function. When the
  link opener rejects a URL that is handed to it, the component calls the opener, logs to
  the console and returns false. Whatever the state, the request leaves visibility, options,
  callbacks, the rendered surface, the timers and the uncaught exceptions unchanged.
\<close>

theorem dispatch_failure_swallowed:
  "(\<exists>b. snd (handleNavigation openURL req) = Inr b) \<and>
   invocations (fst (handleNavigation openURL req)) = [] \<and>
   (\<not> startsWith (url req) ''http'' \<and> \<not> startsWith (url req) ''about:blank'' \<and>
    openURL (url req) = Rejected err \<longrightarrow>
      handleNavigation openURL req =
        ([LinkingOpenURL (url req), ConsoleError ''Couldn't open UPI app''], Inr False)) \<and>
   (let w1 = step (OnShouldStartLoadWithRequest req (Rejected err)) w
    in isVisible w1 = isVisible w \<and> checkoutOptions w1 = checkoutOptions w \<and>
       callbacks w1 = callbacks w \<and> RazorpayUI w1 = RazorpayUI w \<and>
       timers w1 = timers w \<and> uncaught w1 = uncaught w \<and>
       invocations (fresh w w1) = [])"
proof (intro conjI impI)
  show "\<exists>b. snd (handleNavigation openURL req) = Inr b"
    by (rule handleNavigation_returns)
  show "invocations (fst (handleNavigation openURL req)) = []"
    by (simp add: invocations_def handleNavigation_quiet)
next
  assume a: "\<not> startsWith (url req) ''http'' \<and> \<not> startsWith (url req) ''about:blank'' \<and>
    openURL (url req) = Rejected err"
  then have "\<not> startsWith (url req) ''https''"
    using startsWith_https by blast
  with a show "handleNavigation openURL req =
        ([LinkingOpenURL (url req), ConsoleError ''Couldn't open UPI app''], Inr False)"
    by (simp add: handleNavigation_def)
next
  define w1 where "w1 = step (OnShouldStartLoadWithRequest req (Rejected err)) w"
  have f: "isVisible w1 = isVisible w" "checkoutOptions w1 = checkoutOptions w"
    "callbacks w1 = callbacks w" "timers w1 = timers w" "uncaught w1 = uncaught w"
    unfolding w1_def by (rule step_navigation_fields)+
  have h: "host_throws w1 = host_throws w"
    unfolding w1_def by (rule step_host)
  from f(1-3) h have ui: "RazorpayUI w1 = RazorpayUI w"
    by (rule RazorpayUI_cong)
  have "invocations (fresh w w1) = []"
    unfolding w1_def
    by (cases "RazorpayUI w") (simp_all add: invocations_def handleNavigation_quiet)
  with f ui show "let w1 = step (OnShouldStartLoadWithRequest req (Rejected err)) w
    in isVisible w1 = isVisible w \<and> checkoutOptions w1 = checkoutOptions w \<and>
       callbacks w1 = callbacks w \<and> RazorpayUI w1 = RazorpayUI w \<and>
       timers w1 = timers w \<and> uncaught w1 = uncaught w \<and>
       invocations (fresh w w1) = []"
    unfolding w1_def [symmetric] Let_def by simp
qed

theorem dispatch_failure_swallowed_witness:
  "\<not> startsWith ''upi://pay'' ''http'' \<and> \<not> startsWith ''upi://pay'' ''about:blank'' \<and>
   handleNavigation (\<lambda>u. Rejected (JStr ''no app'')) \<lparr>url = ''upi://pay''\<rparr> =
     ([LinkingOpenURL ''upi://pay'', ConsoleError ''Couldn't open UPI app''], Inr False) \<and>
   callbacks (step (OnShouldStartLoadWithRequest \<lparr>url = ''upi://pay''\<rparr>
                      (Rejected (JStr ''no app''))) example_session) =
     callbacks example_session \<and>
   isVisible (step (OnShouldStartLoadWithRequest \<lparr>url = ''upi://pay''\<rparr>
                      (Rejected (JStr ''no app''))) example_session) \<and>
   invocations (fresh example_session
      (step (OnShouldStartLoadWithRequest \<lparr>url = ''upi://pay''\<rparr>
               (Rejected (JStr ''no app''))) example_session)) = []"
proof -
  have h: "\<not> startsWith ''upi://pay'' ''http''" "\<not> startsWith ''upi://pay'' ''about:blank''"
    by (simp_all add: startsWith_def)
  have v: "isVisible example_session"
    by (simp add: example_session_def init_def openCheckout_def dispatch_def Let_def)
  from dispatch_failure_swallowed [of "\<lambda>u. Rejected (JStr ''no app'')"
      "\<lparr>url = ''upi://pay''\<rparr>" "JStr ''no app''" example_session] h v
  show ?thesis by (simp add: Let_def)
qed

section \<open>The handler of the widget\<close>

text \<open>
  C9. Whatever the options of the host, the widget is to be built with the page's own
  \<open>handler\<close>. The component writes the characters of \<open>JSON.stringify\<close> into the inline
  script as they are. For a shop name \<open></script>\<close> the text of the page has the end tag
  of the script element inside the literal, before the statement that assigns
  \<open>options.handler\<close>.
\<close>

theorem options_text_not_escaped:
  \<open>interpolate (optionsString breaking_options) =
     ''{"key":"k1","amount":500,"name":"</script>"}'' \<and>
   htmlContent breaking_options =
     page_before @ ''{"key":"k1","amount":500,"name":"</script>"}'' @ page_after\<close>
  by (simp add: htmlContent_def optionsString_def optionsWithoutHandler_def JSON_stringify_def
      breaking_options_def List.map_filter_simps number_chars_def quote_def escape_char_def)

section \<open>Opening again before the clear\<close>

text \<open>
  C10, as stated: an \<open>openCheckout\<close> called after \<open>closeCheckout\<close> and before the clear
  stores its request and sets visibility. \<open>openCheckout\<close> tests the \<open>isVisible\<close> that
  the render which created it has read. Here the host calls \<open>closeCheckout\<close> and then
  \<open>openCheckout\<close> of one and the same render, in which the checkout is visible: the
  second call returns at once, the new request is not stored and nothing is visible.
\<close>

theorem reopen_same_handler_counterexample:
  "isVisible example_session \<and>
   \<not> isVisible (step (OpenCheckout (render example_session) other_options other_callbacks)
                  (step (CloseCheckout (render example_session)) example_session)) \<and>
   checkoutOptions (step (OpenCheckout (render example_session) other_options other_callbacks)
                      (step (CloseCheckout (render example_session)) example_session)) =
     Some example_options"
  by (simp add: model_defs)

text \<open>
  C10, amended. After a \<open>closeCheckout\<close> that returned, in any state and through the
  function of any render, a call of \<open>openCheckout\<close> made less than 100 ms later through
  the function of a render in which \<open>isVisible\<close> is false stores its options and callbacks
  and sets visibility; when the 100 ms of the earlier timer have passed, options and
  callbacks are null and visibility is still true. The latest render after the
  \<open>closeCheckout\<close> is such a render.
\<close>

theorem reopen_before_clear:
  assumes "d < 100" and "100 \<le> d + e"
    and "snd (closeCheckout (host_throws w) rc) = Inr ()" and "\<not> isVisible ro"
  shows "let w1 = step (Elapse d) (step (CloseCheckout rc) w);
             w2 = step (OpenCheckout ro opts cbs) w1;
             w3 = step (Elapse e) w2
         in \<not> isVisible (render w1) \<and>
            isVisible w2 \<and> checkoutOptions w2 = Some opts \<and> callbacks w2 = Some cbs \<and>
            isVisible w3 \<and> checkoutOptions w3 = None \<and> callbacks w3 = None"
  using assms by (simp add: Let_def openCheckout_hidden close_timers)

theorem reopen_before_clear_witness:
  "(40::nat) < 100 \<and> (100::nat) \<le> 40 + 60 \<and>
   snd (closeCheckout (host_throws example_session) (render example_session)) = Inr () \<and>
   \<not> isVisible (render (step (Elapse 40)
                    (step (CloseCheckout (render example_session)) example_session))) \<and>
   (let w1 = step (Elapse 40) (step (CloseCheckout (render example_session)) example_session);
        w2 = step (OpenCheckout (render w1) other_options other_callbacks) w1;
        w3 = step (Elapse 60) w2
    in isVisible w2 \<and> callbacks w2 = Some other_callbacks \<and>
       isVisible w3 \<and> checkoutOptions w3 = None \<and> callbacks w3 = None)"
proof -
  have h: "snd (closeCheckout (host_throws example_session) (render example_session)) = Inr ()"
    by (simp add: model_defs)
  have v: "\<not> isVisible (render (step (Elapse 40)
                    (step (CloseCheckout (render example_session)) example_session)))"
    by simp
  from reopen_before_clear [of 40 60 example_session "render example_session"
      "render (step (Elapse 40) (step (CloseCheckout (render example_session)) example_session))"
      other_options other_callbacks, OF _ _ h v] h v
  show ?thesis by (simp add: Let_def)
qed

end
